theory Spec2Isabelle
  imports Main "HOL-Library.Product_Lexorder" "HOL-Library.List_Lexorder" "HOL-Library.Char_ord"
begin

section \<open>The task table of the distributed task framework\<close>

text \<open>
  A shallow embedding of \<^verbatim>\<open>pkg/disttask/framework/storage/task_table.go\<close>.
  The SQL statements the Go code issues are functions on a record of the five tables;
  the session (\<^verbatim>\<open>WithNewSession\<close>, \<^verbatim>\<open>WithNewTxn\<close>, \<^verbatim>\<open>ExecSQL\<close>)
  threads that record and returns \<open>Inl\<close> for every error return of the source.
\<close>

subsection \<open>Constants and library functions that are not part of the file\<close>

text \<open>
  The file uses constants of the packages \<^verbatim>\<open>proto\<close>, \<^verbatim>\<open>kv\<close>, \<^verbatim>\<open>variable\<close>
  and \<^verbatim>\<open>intest\<close>, the function \<^verbatim>\<open>proto.Type2Int\<close>, and the JSON codec of the
  errors library. They are parameters of the model, collected in one record:
  \<open>UnmarshalJSON\<close> returns \<open>Inl\<close> with the message of the decoder when the bytes do not
  decode, \<open>MarshalJSON\<close> returns \<open>None\<close> when the error does not encode. A decoded
  error is kept as its code and message.
\<close>

datatype NormalizedError = NormalizedError (errCode: int) (errMessage: string)

datatype TaskError = StdErr NormalizedError | PlainErr string

record env =
  MaxConcurrentTask :: nat
  TxnTotalSizeLimit :: nat
  DefTiDBMemQuotaQuery :: int
  InTest :: bool
  StepInit :: int
  NormalPriority :: int
  Type2Int :: "string \<Rightarrow> int"
  UnmarshalJSON :: "string \<Rightarrow> string + NormalizedError"
  MarshalJSON :: "TaskError \<Rightarrow> string option"

text \<open>\<^verbatim>\<open>maxSubtaskBatchSize = 16 * units.MiB\<close>\<close>

definition maxSubtaskBatchSize :: nat where
  "maxSubtaskBatchSize = 16 * 1048576"

subsection \<open>Tasks and subtasks in memory\<close>

text \<open>
  \<^verbatim>\<open>proto.Task\<close> with the fields \<^verbatim>\<open>row2Task\<close> fills. A time is a number of
  seconds; the zero \<^verbatim>\<open>time.Time\<close> of an unset start or update time is 0.
\<close>

record Task =
  ID :: int
  Key :: string
  Type :: string
  State :: string
  Step :: int
  Priority :: int
  Concurrency :: int
  CreateTime :: int
  StartTime :: int
  StateUpdateTime :: int
  Meta :: string
  SchedulerID :: string
  Error :: "TaskError option"

text \<open>
  \<^verbatim>\<open>proto.Subtask\<close> with the fields the insert statements read.
\<close>

record Subtask =
  subStep :: int
  subTaskID :: int
  subType :: string
  subExecID :: string
  subConcurrency :: int
  subOrdinal :: int
  subMeta :: string

subsection \<open>Batching of subtasks\<close>

text \<open>
  The loop of \<^verbatim>\<open>splitSubtasks\<close> with its three variables \<^verbatim>\<open>res\<close>,
  \<^verbatim>\<open>currBatch\<close> and \<^verbatim>\<open>size\<close>. Sizes are lengths of byte slices held in
  memory, far below the range of a 64-bit \<^verbatim>\<open>int\<close>, so \<open>nat\<close> addition is the
  addition of the source.
\<close>

fun splitLoop ::
  "nat \<Rightarrow> Subtask list \<Rightarrow> Subtask list list \<Rightarrow> Subtask list \<Rightarrow> nat
    \<Rightarrow> Subtask list list \<times> Subtask list" where
  "splitLoop maxSize [] res currBatch sz = (res, currBatch)"
| "splitLoop maxSize (s # ss) res currBatch sz =
     (if sz + length (subMeta s) > maxSize
      then splitLoop maxSize ss (res @ [currBatch]) [s] (length (subMeta s))
      else splitLoop maxSize ss res (currBatch @ [s]) (sz + length (subMeta s)))"

definition splitSubtasks :: "env \<Rightarrow> Subtask list \<Rightarrow> Subtask list list" where
  "splitSubtasks e subtasks =
     (let maxSize = min (TxnTotalSizeLimit e) maxSubtaskBatchSize in
      case splitLoop maxSize subtasks [] [] 0 of
        (res, currBatch) \<Rightarrow> if length currBatch > 0 then res @ [currBatch] else res)"

text \<open>The number of Meta bytes of a batch.\<close>

definition metaSize :: "Subtask list \<Rightarrow> nat" where
  "metaSize b = sum_list (map (\<lambda>s. length (subMeta s)) b)"

subsection \<open>The stored tables\<close>

text \<open>
  One record per table, one field per column the file reads or writes. A nullable column
  is an \<open>option\<close>. The column \<^verbatim>\<open>task_key\<close> of a subtask row holds the id of the
  owning task. Times are seconds.
\<close>

record task_row =
  c_id :: int
  c_task_key :: string
  c_type :: string
  c_state :: string
  c_step :: int
  c_priority :: int
  c_concurrency :: int
  c_create_time :: int
  c_start_time :: "int option"
  c_state_update_time :: "int option"
  c_meta :: string
  c_dispatcher_id :: string
  c_error :: "string option"

record subtask_row =
  s_id :: int
  s_step :: int
  s_task_key :: int
  s_type :: int
  s_exec_id :: string
  s_state :: string
  s_concurrency :: int
  s_create_time :: int
  s_ordinal :: "int option"
  s_start_time :: "int option"
  s_state_update_time :: "int option"
  s_meta :: string
  s_checkpoint :: string
  s_summary :: string
  s_error :: "string option"

record node_row =
  n_host :: string
  n_role :: string
  n_cpu_count :: int

record ManagedNode =
  NodeID :: string
  Role :: string
  CPUCount :: int

text \<open>
  The store as one session sees it: the five tables, the two auto-increment counters,
  the clock behind \<^verbatim>\<open>CURRENT_TIMESTAMP()\<close> and \<^verbatim>\<open>unix_timestamp()\<close>, the session
  variable \<^verbatim>\<open>MemQuotaQuery\<close>, and the outcomes of the coming calls that may return
  an error (taking a session from the pool, a statement, setting a session variable):
  \<open>faults\<close> holds one entry per call, \<open>True\<close> when that call returns an error;
  past the end of the list every call succeeds.
\<close>

record store =
  tidb_global_task :: "task_row list"
  tidb_global_task_history :: "task_row list"
  tidb_background_subtask :: "subtask_row list"
  tidb_background_subtask_history :: "subtask_row list"
  dist_framework_meta :: "node_row list"
  last_task_id :: int
  last_subtask_id :: int
  clock :: int
  MemQuotaQuery :: int
  faults :: "bool list"

text \<open>
  The errors the functions return. \<open>ErrStore\<close> is an error of a statement, of
  \<^verbatim>\<open>begin\<close> or of \<^verbatim>\<open>commit\<close>; \<open>ErrSessionPool\<close> one of taking a session from
  the pool; \<open>ErrSetSystemVar\<close> one of setting the memory quota.
  \<open>ErrUnstableSubtasks\<close>, \<open>ErrTaskNotFound\<close> and \<open>ErrSubtaskNotFound\<close> are the
  variables of these names, the first with the two numbers of its annotation.
  \<open>ErrNoManagedNodes\<close> is \<^verbatim>\<open>no managed nodes\<close>, \<open>ErrNoUsableCapacity\<close> is
  \<^verbatim>\<open>no managed node have enough resource for dist task\<close>,
  \<open>ErrConcurrencyExceedsCapacity\<close> is \<^verbatim>\<open>task concurrency(%d) larger than cpu count(%d)
  of managed node\<close>, \<open>ErrInvalidStateTransform\<close> is \<^verbatim>\<open>invalid task state transform,
  state already changed\<close>, and \<open>ErrUnmarshal\<close> is the error of the JSON decoder.
\<close>

datatype error =
    ErrStore
  | ErrSessionPool
  | ErrSetSystemVar
  | ErrUnstableSubtasks nat nat
  | ErrTaskNotFound
  | ErrSubtaskNotFound
  | ErrNoManagedNodes
  | ErrNoUsableCapacity
  | ErrConcurrencyExceedsCapacity int int
  | ErrInvalidStateTransform
  | ErrUnmarshal string

text \<open>
  Modelled from the spec: the state constants of the package \<^verbatim>\<open>proto\<close> are not in
  the source file; their values are the state names of the specification (section 3),
  three of which the file also writes as SQL literals (\<^verbatim>\<open>"running"\<close>,
  \<^verbatim>\<open>"pending"\<close>, \<^verbatim>\<open>"paused"\<close>). Task and subtask states of one name are one string.
\<close>

definition TaskStatePending :: string where "TaskStatePending = ''pending''"
definition TaskStateRunning :: string where "TaskStateRunning = ''running''"
definition TaskStateReverting :: string where "TaskStateReverting = ''reverting''"
definition TaskStateSucceed :: string where "TaskStateSucceed = ''succeed''"
definition TaskStateFailed :: string where "TaskStateFailed = ''failed''"
definition TaskStateReverted :: string where "TaskStateReverted = ''reverted''"
definition SubtaskStatePending :: string where "SubtaskStatePending = ''pending''"
definition SubtaskStateRevertPending :: string where "SubtaskStateRevertPending = ''revert_pending''"
definition SubtaskStateFailed :: string where "SubtaskStateFailed = ''failed''"
definition SubtaskStateCanceled :: string where "SubtaskStateCanceled = ''canceled''"

subsection \<open>Sessions, statements and transactions\<close>

text \<open>A call into the store takes the next entry of \<open>faults\<close>.\<close>

definition attempt :: "store \<Rightarrow> bool \<times> store" where
  "attempt s = (case faults s of [] \<Rightarrow> (True, s) | f # fs \<Rightarrow> (\<not> f, s\<lparr>faults := fs\<rparr>))"

text \<open>
  \<^verbatim>\<open>sqlexec.ExecSQL\<close>: the statement is a function on the store; a statement that
  fails changes nothing.
\<close>

definition ExecSQL :: "(store \<Rightarrow> 'r \<times> store) \<Rightarrow> store \<Rightarrow> (error + 'r) \<times> store" where
  "ExecSQL stmt s =
     (case attempt s of (ok, s1) \<Rightarrow>
        if ok then (case stmt s1 of (r, s2) \<Rightarrow> (Inr r, s2)) else (Inl ErrStore, s1))"

text \<open>
  \<^verbatim>\<open>update t set ... where ...\<close> on one table. The affected-row count is the number
  of rows the statement changed, as the comment in \<^verbatim>\<open>UpdateTaskAndAddSubTasks\<close>
  says (an update that writes the values a row already has affects 0 rows).
\<close>

definition sqlUpdate :: "('r \<Rightarrow> bool) \<Rightarrow> ('r \<Rightarrow> 'r) \<Rightarrow> 'r list \<Rightarrow> nat \<times> 'r list" where
  "sqlUpdate wh upd rows =
     (length (filter (\<lambda>r. wh r \<and> upd r \<noteq> r) rows), map (\<lambda>r. if wh r then upd r else r) rows)"

definition WithNewSession ::
  "(store \<Rightarrow> (error + 'a) \<times> store) \<Rightarrow> store \<Rightarrow> (error + 'a) \<times> store" where
  "WithNewSession fn s =
     (case attempt s of (ok, s1) \<Rightarrow> if ok then fn s1 else (Inl ErrSessionPool, s1))"

definition ExecuteSQLWithNewSession ::
  "(store \<Rightarrow> 'r \<times> store) \<Rightarrow> store \<Rightarrow> (error + 'r) \<times> store" where
  "ExecuteSQLWithNewSession stmt = WithNewSession (ExecSQL stmt)"

text \<open>The tables as they were in \<open>snap\<close>; counters, clock and session stay.\<close>

definition restoreTables :: "store \<Rightarrow> store \<Rightarrow> store" where
  "restoreTables snap s =
     s\<lparr>tidb_global_task := tidb_global_task snap,
       tidb_global_task_history := tidb_global_task_history snap,
       tidb_background_subtask := tidb_background_subtask snap,
       tidb_background_subtask_history := tidb_background_subtask_history snap,
       dist_framework_meta := dist_framework_meta snap\<rparr>"

text \<open>
  \<^verbatim>\<open>WithNewTxn\<close>: \<^verbatim>\<open>begin\<close>, the function, then \<^verbatim>\<open>rollback\<close> when the function
  returned an error (the error of the rollback itself is dropped) and \<^verbatim>\<open>commit\<close>
  otherwise (a failing commit is the error returned). What was not committed is not
  in the tables afterwards.
\<close>

definition WithNewTxn ::
  "(store \<Rightarrow> (error + 'a) \<times> store) \<Rightarrow> store \<Rightarrow> (error + 'a) \<times> store" where
  "WithNewTxn fn =
     WithNewSession (\<lambda>s.
       case ExecSQL (\<lambda>s. ((), s)) s of
         (Inl err, s1) \<Rightarrow> (Inl err, s1)
       | (Inr u, s1) \<Rightarrow>
           (case fn s1 of
              (Inl err, s2) \<Rightarrow> (Inl err, restoreTables s1 (snd (attempt s2)))
            | (Inr v, s2) \<Rightarrow>
                (case attempt s2 of (ok, s3) \<Rightarrow>
                   if ok then (Inr v, s3) else (Inl ErrStore, restoreTables s1 s3))))"

subsection \<open>Rows to tasks\<close>

definition row2TaskBasic :: "task_row \<Rightarrow> Task" where
  "row2TaskBasic r =
     \<lparr>ID = c_id r, Key = c_task_key r, Type = c_type r, State = c_state r, Step = c_step r,
      Priority = c_priority r, Concurrency = c_concurrency r, CreateTime = c_create_time r,
      StartTime = 0, StateUpdateTime = 0, Meta = [], SchedulerID = [], Error = None\<rparr>"

definition row2Task :: "env \<Rightarrow> task_row \<Rightarrow> Task" where
  "row2Task e r =
     (row2TaskBasic r)
       \<lparr>StartTime := (case c_start_time r of None \<Rightarrow> 0 | Some t \<Rightarrow> t),
        StateUpdateTime := (case c_state_update_time r of None \<Rightarrow> 0 | Some t \<Rightarrow> t),
        Meta := c_meta r,
        SchedulerID := c_dispatcher_id r,
        Error := (case c_error r of
                    None \<Rightarrow> None
                  | Some errBytes \<Rightarrow>
                      (case UnmarshalJSON e errBytes of
                         Inl err \<Rightarrow> Some (PlainErr errBytes)
                       | Inr stdErr \<Rightarrow> Some (StdErr stdErr)))\<rparr>"

subsection \<open>The node registry and the creation of a task\<close>

text \<open>
  \<^verbatim>\<open>select host, role, cpu_count from mysql.dist_framework_meta order by host\<close>,
  each row made a \<^verbatim>\<open>proto.ManagedNode\<close>.
\<close>

definition nodeOfRow :: "node_row \<Rightarrow> ManagedNode" where
  "nodeOfRow r = \<lparr>NodeID = n_host r, Role = n_role r, CPUCount = n_cpu_count r\<rparr>"

definition getAllNodesWithSession :: "store \<Rightarrow> (error + ManagedNode list) \<times> store" where
  "getAllNodesWithSession s =
     (case ExecSQL (\<lambda>s. (sort_key n_host (dist_framework_meta s), s)) s of
        (Inl err, s1) \<Rightarrow> (Inl err, s1)
      | (Inr rs, s1) \<Rightarrow> (Inr (map nodeOfRow rs), s1))"

definition getManagedNodesWithSession :: "store \<Rightarrow> (error + ManagedNode list) \<times> store" where
  "getManagedNodesWithSession s =
     (case getAllNodesWithSession s of
        (Inl err, s1) \<Rightarrow> (Inl err, s1)
      | (Inr nodes, s1) \<Rightarrow>
          (if length (filter (\<lambda>n. Role n = ''background'') nodes) = 0
           then (Inr (filter (\<lambda>n. Role n = []) nodes), s1)
           else (Inr (filter (\<lambda>n. Role n = ''background'') nodes), s1)))"

text \<open>The loop that stops at the first node with a positive CPU count; 0 when there is none.\<close>

fun firstCPUCount :: "ManagedNode list \<Rightarrow> int" where
  "firstCPUCount [] = 0"
| "firstCPUCount (n # ns) = (if CPUCount n > 0 then CPUCount n else firstCPUCount ns)"

definition getCPUCountOfManagedNode :: "store \<Rightarrow> (error + int) \<times> store" where
  "getCPUCountOfManagedNode s =
     (case getManagedNodesWithSession s of
        (Inl err, s1) \<Rightarrow> (Inl err, s1)
      | (Inr nodes, s1) \<Rightarrow>
          (if length nodes = 0 then (Inl ErrNoManagedNodes, s1)
           else if firstCPUCount nodes = 0 then (Inl ErrNoUsableCapacity, s1)
           else (Inr (firstCPUCount nodes), s1)))"

text \<open>The \<^verbatim>\<open>insert into mysql.tidb_global_task\<close> of \<^verbatim>\<open>CreateTaskWithSession\<close>.\<close>

definition newTaskRow :: "env \<Rightarrow> string \<Rightarrow> string \<Rightarrow> int \<Rightarrow> string \<Rightarrow> store \<Rightarrow> task_row" where
  "newTaskRow e key tp concurrency meta s =
     \<lparr>c_id = last_task_id s + 1, c_task_key = key, c_type = tp, c_state = TaskStatePending,
      c_step = StepInit e, c_priority = NormalPriority e, c_concurrency = concurrency,
      c_create_time = clock s, c_start_time = None, c_state_update_time = None,
      c_meta = meta, c_dispatcher_id = [], c_error = None\<rparr>"

definition sqlInsertTask ::
  "env \<Rightarrow> string \<Rightarrow> string \<Rightarrow> int \<Rightarrow> string \<Rightarrow> store \<Rightarrow> unit \<times> store" where
  "sqlInsertTask e key tp concurrency meta s =
     ((), s\<lparr>tidb_global_task := tidb_global_task s @ [newTaskRow e key tp concurrency meta s],
            last_task_id := last_task_id s + 1\<rparr>)"

definition CreateTaskWithSession ::
  "env \<Rightarrow> string \<Rightarrow> string \<Rightarrow> int \<Rightarrow> string \<Rightarrow> store \<Rightarrow> (error + int) \<times> store" where
  "CreateTaskWithSession e key tp concurrency meta s =
     (case getCPUCountOfManagedNode s of
        (Inl err, s1) \<Rightarrow> (Inl err, s1)
      | (Inr cpuCount, s1) \<Rightarrow>
          if concurrency > cpuCount
          then (Inl (ErrConcurrencyExceedsCapacity concurrency cpuCount), s1)
          else (case ExecSQL (sqlInsertTask e key tp concurrency meta) s1 of
                  (Inl err, s2) \<Rightarrow> (Inl err, s2)
                | (Inr u, s2) \<Rightarrow>
                    (case ExecSQL (\<lambda>s. (last_task_id s, s)) s2 of
                       (Inl err, s3) \<Rightarrow> (Inl err, s3)
                     | (Inr taskID, s3) \<Rightarrow> (Inr taskID, s3))))"

definition CreateTask ::
  "env \<Rightarrow> string \<Rightarrow> string \<Rightarrow> int \<Rightarrow> string \<Rightarrow> store \<Rightarrow> (error + int) \<times> store" where
  "CreateTask e key tp concurrency meta =
     WithNewSession (CreateTaskWithSession e key tp concurrency meta)"

subsection \<open>Reading tasks\<close>





subsection \<open>Subtask errors\<close>

text \<open>The loop of \<^verbatim>\<open>CollectSubTaskError\<close> over the selected \<^verbatim>\<open>error\<close> column.\<close>

fun collectErrors ::
  "env \<Rightarrow> string option list \<Rightarrow> TaskError option list \<Rightarrow> error + TaskError option list" where
  "collectErrors e [] subTaskErrors = Inr subTaskErrors"
| "collectErrors e (row # rows) subTaskErrors =
     (case row of
        None \<Rightarrow> collectErrors e rows (subTaskErrors @ [None])
      | Some errBytes \<Rightarrow>
          if length errBytes = 0 then collectErrors e rows (subTaskErrors @ [None])
          else (case UnmarshalJSON e errBytes of
                  Inl err \<Rightarrow> Inl (ErrUnmarshal err)
                | Inr stdErr \<Rightarrow> collectErrors e rows (subTaskErrors @ [Some (StdErr stdErr)])))"

definition CollectSubTaskError ::
  "env \<Rightarrow> int \<Rightarrow> store \<Rightarrow> (error + TaskError option list) \<times> store" where
  "CollectSubTaskError e taskID s =
     (case ExecuteSQLWithNewSession
             (\<lambda>s. (map s_error
                      (filter (\<lambda>r. s_task_key r = taskID
                                   \<and> s_state r \<in> set [SubtaskStateFailed, SubtaskStateCanceled])
                         (tidb_background_subtask s)), s)) s of
        (Inl err, s1) \<Rightarrow> (Inl err, s1)
      | (Inr rs, s1) \<Rightarrow>
          (case collectErrors e rs [] of
             Inl err \<Rightarrow> (Inl err, s1)
           | Inr subTaskErrors \<Rightarrow> (Inr subTaskErrors, s1)))"

subsection \<open>Starting a subtask\<close>

definition sqlStartSubtask :: "int \<Rightarrow> string \<Rightarrow> store \<Rightarrow> nat \<times> store" where
  "sqlStartSubtask subtaskID execID s =
     (case sqlUpdate (\<lambda>r. s_id r = subtaskID \<and> s_exec_id r = execID)
             (\<lambda>r. r\<lparr>s_state := TaskStateRunning, s_start_time := Some (clock s),
                    s_state_update_time := Some (clock s)\<rparr>)
             (tidb_background_subtask s) of
        (affected, rows) \<Rightarrow> (affected, s\<lparr>tidb_background_subtask := rows\<rparr>))"

definition StartSubtask :: "int \<Rightarrow> string \<Rightarrow> store \<Rightarrow> (error + unit) \<times> store" where
  "StartSubtask subtaskID execID =
     WithNewTxn (\<lambda>s.
       case ExecSQL (sqlStartSubtask subtaskID execID) s of
         (Inl err, s1) \<Rightarrow> (Inl err, s1)
       | (Inr affectedRows, s1) \<Rightarrow>
           if affectedRows = 0 then (Inl ErrSubtaskNotFound, s1) else (Inr (), s1))"

subsection \<open>Switching the step of a task\<close>

text \<open>
  The update of \<^verbatim>\<open>updateTaskStateStep\<close>, with its \<^verbatim>\<open>where\<close> clause
  (\<open>taskAt\<close>) and its \<^verbatim>\<open>set\<close> clause (\<open>setStateStep\<close>). The Go function returns
  the error only and its callers read the affected-row count from the session; here the
  count is returned.
\<close>

definition taskAt :: "Task \<Rightarrow> task_row \<Rightarrow> bool" where
  "taskAt task r \<longleftrightarrow> c_id r = ID task \<and> c_state r = State task \<and> c_step r = Step task"

definition setStateStep :: "Task \<Rightarrow> string \<Rightarrow> int \<Rightarrow> int \<Rightarrow> task_row \<Rightarrow> task_row" where
  "setStateStep task nextState nextStep now r =
     (if State task = TaskStatePending then r\<lparr>c_start_time := Some now\<rparr> else r)
       \<lparr>c_state := nextState, c_step := nextStep,
        c_state_update_time := Some now, c_meta := Meta task\<rparr>"

definition sqlUpdateTaskStateStep :: "Task \<Rightarrow> string \<Rightarrow> int \<Rightarrow> store \<Rightarrow> nat \<times> store" where
  "sqlUpdateTaskStateStep task nextState nextStep s =
     (case sqlUpdate (taskAt task) (setStateStep task nextState nextStep (clock s))
             (tidb_global_task s) of
        (affected, rows) \<Rightarrow> (affected, s\<lparr>tidb_global_task := rows\<rparr>))"

definition updateTaskStateStep ::
  "Task \<Rightarrow> string \<Rightarrow> int \<Rightarrow> store \<Rightarrow> (error + nat) \<times> store" where
  "updateTaskStateStep task nextState nextStep =
     ExecSQL (sqlUpdateTaskStateStep task nextState nextStep)"

text \<open>
  An \<^verbatim>\<open>insert into mysql.tidb_background_subtask\<close> of several rows; the store numbers
  them after the last id it gave out.
\<close>

fun assignIDs :: "int \<Rightarrow> subtask_row list \<Rightarrow> subtask_row list" where
  "assignIDs lastID [] = []"
| "assignIDs lastID (r # rs) = r\<lparr>s_id := lastID + 1\<rparr> # assignIDs (lastID + 1) rs"

definition sqlInsertSubtaskRows :: "(store \<Rightarrow> subtask_row list) \<Rightarrow> store \<Rightarrow> unit \<times> store" where
  "sqlInsertSubtaskRows rows s =
     ((), s\<lparr>tidb_background_subtask :=
               tidb_background_subtask s @ assignIDs (last_subtask_id s) (rows s),
            last_subtask_id := last_subtask_id s + int (length (rows s))\<rparr>)"

text \<open>The values \<^verbatim>\<open>insertSubtasks\<close> writes for one subtask (the id comes from the store).\<close>

definition pendingSubtaskRow :: "env \<Rightarrow> Subtask \<Rightarrow> store \<Rightarrow> subtask_row" where
  "pendingSubtaskRow e subtask s =
     \<lparr>s_id = 0, s_step = subStep subtask, s_task_key = subTaskID subtask,
      s_type = Type2Int e (subType subtask), s_exec_id = subExecID subtask,
      s_state = TaskStatePending, s_concurrency = subConcurrency subtask,
      s_create_time = clock s, s_ordinal = Some (subOrdinal subtask), s_start_time = None,
      s_state_update_time = None, s_meta = subMeta subtask, s_checkpoint = ''{}'',
      s_summary = ''{}'', s_error = None\<rparr>"

definition insertSubtasks :: "env \<Rightarrow> Subtask list \<Rightarrow> store \<Rightarrow> (error + unit) \<times> store" where
  "insertSubtasks e subtasks s =
     (if length subtasks = 0 then (Inr (), s)
      else ExecSQL (sqlInsertSubtaskRows (\<lambda>s. map (\<lambda>subtask. pendingSubtaskRow e subtask s) subtasks)) s)"




fun insertBatches :: "env \<Rightarrow> Subtask list list \<Rightarrow> store \<Rightarrow> (error + unit) \<times> store" where
  "insertBatches e [] s = (Inr (), s)"
| "insertBatches e (batch # batches) s =
     (case insertSubtasks e batch s of
        (Inl err, s1) \<Rightarrow> (Inl err, s1)
      | (Inr u, s1) \<Rightarrow> insertBatches e batches s1)"

definition sqlCountSubtasks :: "int \<Rightarrow> int \<Rightarrow> store \<Rightarrow> nat \<times> store" where
  "sqlCountSubtasks taskID step s =
     (length (filter (\<lambda>r. s_task_key r = taskID \<and> s_step r = step) (tidb_background_subtask s)), s)"

definition SwitchTaskStepInBatch ::
  "env \<Rightarrow> Task \<Rightarrow> string \<Rightarrow> int \<Rightarrow> Subtask list \<Rightarrow> store \<Rightarrow> (error + unit) \<times> store" where
  "SwitchTaskStepInBatch e task nextState nextStep subtasks =
     WithNewSession (\<lambda>s.
       case ExecSQL (sqlCountSubtasks (ID task) nextStep) s of
         (Inl err, s1) \<Rightarrow> (Inl err, s1)
       | (Inr existingTaskCnt, s1) \<Rightarrow>
           if existingTaskCnt > length subtasks
           then (Inl (ErrUnstableSubtasks (length subtasks) existingTaskCnt), s1)
           else (case insertBatches e (splitSubtasks e (drop existingTaskCnt subtasks)) s1 of
                   (Inl err, s2) \<Rightarrow> (Inl err, s2)
                 | (Inr u, s2) \<Rightarrow>
                     (case updateTaskStateStep task nextState nextStep s2 of
                        (Inl err, s3) \<Rightarrow> (Inl err, s3)
                      | (Inr affectedRows, s3) \<Rightarrow> (Inr (), s3))))"

subsection \<open>The combined update of a task and its subtasks\<close>

definition serializeErr :: "env \<Rightarrow> TaskError option \<Rightarrow> string option" where
  "serializeErr e err = (case err of None \<Rightarrow> None | Some tErr \<Rightarrow> MarshalJSON e tErr)"

definition sqlUpdateTask :: "env \<Rightarrow> Task \<Rightarrow> string \<Rightarrow> store \<Rightarrow> nat \<times> store" where
  "sqlUpdateTask e task prevState s =
     (case sqlUpdate (\<lambda>r. c_id r = ID task \<and> c_state r = prevState)
             (\<lambda>r. r\<lparr>c_state := State task, c_dispatcher_id := SchedulerID task,
                    c_step := Step task, c_concurrency := Concurrency task,
                    c_meta := Meta task, c_error := serializeErr e (Error task),
                    c_state_update_time := Some (clock s)\<rparr>)
             (tidb_global_task s) of
        (affected, rows) \<Rightarrow> (affected, s\<lparr>tidb_global_task := rows\<rparr>))"

text \<open>
  The values \<^verbatim>\<open>UpdateTaskAndAddSubTasks\<close> writes for one subtask: the owning task is
  \<^verbatim>\<open>task.ID\<close>, the ordinal is \<^verbatim>\<open>NULL\<close>, the state is given.
\<close>

definition addedSubtaskRow :: "env \<Rightarrow> Task \<Rightarrow> string \<Rightarrow> Subtask \<Rightarrow> store \<Rightarrow> subtask_row" where
  "addedSubtaskRow e task subtaskState subtask s =
     \<lparr>s_id = 0, s_step = subStep subtask, s_task_key = ID task,
      s_type = Type2Int e (subType subtask), s_exec_id = subExecID subtask,
      s_state = subtaskState, s_concurrency = subConcurrency subtask,
      s_create_time = clock s, s_ordinal = None, s_start_time = None,
      s_state_update_time = None, s_meta = subMeta subtask, s_checkpoint = ''{}'',
      s_summary = ''{}'', s_error = None\<rparr>"

text \<open>
  The function run in the transaction of \<^verbatim>\<open>UpdateTaskAndAddSubTasks\<close>. The error of
  the insert statement is answered by \<^verbatim>\<open>return nil\<close>. The format strings of
  \<^verbatim>\<open>sqlescape.FormatSQL\<close> are constants that fit their arguments, so these calls
  return no error; the fail point is compiled out.
\<close>

definition updateTaskAndAddSubTasksTxn ::
  "env \<Rightarrow> Task \<Rightarrow> Subtask list \<Rightarrow> string \<Rightarrow> store \<Rightarrow> (error + unit) \<times> store" where
  "updateTaskAndAddSubTasksTxn e task subtasks prevState s =
     (case ExecSQL (sqlUpdateTask e task prevState) s of
        (Inl err, s1) \<Rightarrow> (Inl err, s1)
      | (Inr affectedRows, s1) \<Rightarrow>
          (case (if affectedRows = 0
                 then (if \<not> InTest e then (Inl ErrInvalidStateTransform, s1)
                       else (case ExecSQL (\<lambda>s. (filter (\<lambda>r. c_id r = ID task \<and> c_state r = prevState)
                                                    (tidb_global_task s), s)) s1 of
                               (Inl err, s2) \<Rightarrow> (Inl err, s2)
                             | (Inr rs, s2) \<Rightarrow>
                                 if length rs = 0 then (Inl ErrInvalidStateTransform, s2)
                                 else (Inr (), s2)))
                 else (Inr (), s1)) of
             (Inl err, s2) \<Rightarrow> (Inl err, s2)
           | (Inr u, s2) \<Rightarrow>
               if length subtasks > 0
               then (case ExecSQL
                            (sqlInsertSubtaskRows
                               (\<lambda>s. map (\<lambda>subtask.
                                      addedSubtaskRow e task
                                        (if State task = TaskStateReverting
                                         then SubtaskStateRevertPending else SubtaskStatePending)
                                        subtask s) subtasks)) s2 of
                       (Inl err, s3) \<Rightarrow> (Inr (), s3)
                     | (Inr u, s3) \<Rightarrow> (Inr (), s3))
               else (Inr (), s2)))"

text \<open>
  \<^verbatim>\<open>retryable\<close> is set to false exactly where the function returns
  \<open>ErrInvalidStateTransform\<close>.
\<close>

definition UpdateTaskAndAddSubTasks ::
  "env \<Rightarrow> Task \<Rightarrow> Subtask list \<Rightarrow> string \<Rightarrow> store \<Rightarrow> (bool \<times> (error + unit)) \<times> store" where
  "UpdateTaskAndAddSubTasks e task subtasks prevState s =
     (case WithNewTxn (updateTaskAndAddSubTasksTxn e task subtasks prevState) s of
        (err, s1) \<Rightarrow> ((err \<noteq> Inl ErrInvalidStateTransform, err), s1))"

subsection \<open>Moving tasks to the history tables\<close>

text \<open>
  \<^verbatim>\<open>insert into mysql.tidb_background_subtask_history select * from
  mysql.tidb_background_subtask where task_key = %?\<close> and the \<^verbatim>\<open>delete\<close> after it.
\<close>

definition sqlCopySubtasks2History :: "int \<Rightarrow> store \<Rightarrow> unit \<times> store" where
  "sqlCopySubtasks2History taskID s =
     ((), s\<lparr>tidb_background_subtask_history :=
               tidb_background_subtask_history s
               @ filter (\<lambda>r. s_task_key r = taskID) (tidb_background_subtask s)\<rparr>)"

definition sqlDeleteSubtasks :: "int \<Rightarrow> store \<Rightarrow> unit \<times> store" where
  "sqlDeleteSubtasks taskID s =
     ((), s\<lparr>tidb_background_subtask :=
               filter (\<lambda>r. s_task_key r \<noteq> taskID) (tidb_background_subtask s)\<rparr>)"

definition TransferSubtasks2HistoryWithSession ::
  "int \<Rightarrow> store \<Rightarrow> (error + unit) \<times> store" where
  "TransferSubtasks2HistoryWithSession taskID s =
     (case ExecSQL (sqlCopySubtasks2History taskID) s of
        (Inl err, s1) \<Rightarrow> (Inl err, s1)
      | (Inr u, s1) \<Rightarrow> ExecSQL (sqlDeleteSubtasks taskID) s1)"

text \<open>The statements of \<^verbatim>\<open>TransferTasks2History\<close> on the task tables.\<close>

definition sqlUpdateMeta :: "Task \<Rightarrow> store \<Rightarrow> nat \<times> store" where
  "sqlUpdateMeta t s =
     (case sqlUpdate (\<lambda>r. c_id r = ID t)
             (\<lambda>r. r\<lparr>c_meta := Meta t, c_state_update_time := Some (clock s)\<rparr>)
             (tidb_global_task s) of
        (affected, rows) \<Rightarrow> (affected, s\<lparr>tidb_global_task := rows\<rparr>))"

definition sqlCopyTasks2History :: "int list \<Rightarrow> store \<Rightarrow> unit \<times> store" where
  "sqlCopyTasks2History taskIDs s =
     ((), s\<lparr>tidb_global_task_history :=
               tidb_global_task_history s
               @ filter (\<lambda>r. c_id r \<in> set taskIDs) (tidb_global_task s)\<rparr>)"

definition sqlDeleteTasks :: "int list \<Rightarrow> store \<Rightarrow> unit \<times> store" where
  "sqlDeleteTasks taskIDs s =
     ((), s\<lparr>tidb_global_task := filter (\<lambda>r. c_id r \<notin> set taskIDs) (tidb_global_task s)\<rparr>)"

text \<open>The first loop of \<^verbatim>\<open>TransferTasks2History\<close>: the meta of each task is written.\<close>

fun updateMetas :: "Task list \<Rightarrow> store \<Rightarrow> (error + unit) \<times> store" where
  "updateMetas [] s = (Inr (), s)"
| "updateMetas (t # ts) s =
     (case ExecSQL (sqlUpdateMeta t) s of
        (Inl err, s1) \<Rightarrow> (Inl err, s1)
      | (Inr affectedRows, s1) \<Rightarrow> updateMetas ts s1)"

text \<open>
  The second loop, with the variable \<^verbatim>\<open>err\<close> it starts from (the result of the
  \<^verbatim>\<open>delete\<close> before it) and overwrites.
\<close>

fun transferSubtasksLoop ::
  "Task list \<Rightarrow> error + unit \<Rightarrow> store \<Rightarrow> (error + unit) \<times> store" where
  "transferSubtasksLoop [] err s = (err, s)"
| "transferSubtasksLoop (t # ts) err s =
     (case TransferSubtasks2HistoryWithSession (ID t) s of
        (Inl err', s1) \<Rightarrow> (Inl err', s1)
      | (Inr u, s1) \<Rightarrow> transferSubtasksLoop ts (Inr ()) s1)"

definition TransferTasks2History :: "Task list \<Rightarrow> store \<Rightarrow> (error + unit) \<times> store" where
  "TransferTasks2History tasks s =
     (if length tasks = 0 then (Inr (), s)
      else WithNewTxn (\<lambda>s.
        case updateMetas tasks s of
          (Inl err, s1) \<Rightarrow> (Inl err, s1)
        | (Inr u, s1) \<Rightarrow>
            (case ExecSQL (sqlCopyTasks2History (map ID tasks)) s1 of
               (Inl err, s2) \<Rightarrow> (Inl err, s2)
             | (Inr u, s2) \<Rightarrow>
                 (case ExecSQL (sqlDeleteTasks (map ID tasks)) s2 of
                    (err, s3) \<Rightarrow> transferSubtasksLoop tasks err s3))) s)"

subsection \<open>Example values\<close>

text \<open>
  One instance of the parameters, for the examples below: the limits TiDB ships with,
  and a JSON decoder that accepts the empty object only.
\<close>

definition exampleEnv :: env where
  "exampleEnv =
     \<lparr>MaxConcurrentTask = 4, TxnTotalSizeLimit = 104857600,
      DefTiDBMemQuotaQuery = 1073741824, InTest = False, StepInit = - 1,
      NormalPriority = 512, Type2Int = (\<lambda>tp. 0),
      UnmarshalJSON = (\<lambda>b. if b = ''{}'' then Inr (NormalizedError 0 []) else Inl ''invalid character''),
      MarshalJSON = (\<lambda>err. Some ''{}'')\<rparr>"

definition exampleSubtask :: "int \<Rightarrow> int \<Rightarrow> string \<Rightarrow> Subtask" where
  "exampleSubtask taskID step meta =
     \<lparr>subStep = step, subTaskID = taskID, subType = ''import'', subExecID = ''n1'',
      subConcurrency = 4, subOrdinal = 1, subMeta = meta\<rparr>"

definition exampleStore :: store where
  "exampleStore =
     \<lparr>tidb_global_task = [], tidb_global_task_history = [],
      tidb_background_subtask = [], tidb_background_subtask_history = [],
      dist_framework_meta = [\<lparr>n_host = ''n1'', n_role = [], n_cpu_count = 8\<rparr>],
      last_task_id = 0, last_subtask_id = 0, clock = 1000,
      MemQuotaQuery = 1073741824, faults = []\<rparr>"

definition exampleSubtaskRow :: "int \<Rightarrow> string \<Rightarrow> string \<Rightarrow> subtask_row" where
  "exampleSubtaskRow subtaskID execID st =
     \<lparr>s_id = subtaskID, s_step = 1, s_task_key = 1, s_type = 0, s_exec_id = execID,
      s_state = st, s_concurrency = 4, s_create_time = 900, s_ordinal = Some 1,
      s_start_time = Some 950, s_state_update_time = Some 960, s_meta = ''range'',
      s_checkpoint = ''{}'', s_summary = ''{}'', s_error = None\<rparr>"

definition exampleTaskRow :: "int \<Rightarrow> string \<Rightarrow> int \<Rightarrow> task_row" where
  "exampleTaskRow taskID st stp =
     \<lparr>c_id = taskID, c_task_key = ''job1'', c_type = ''import'', c_state = st,
      c_step = stp, c_priority = 512, c_concurrency = 4, c_create_time = 900,
      c_start_time = Some 910, c_state_update_time = Some 920, c_meta = ''meta'',
      c_dispatcher_id = [], c_error = None\<rparr>"

definition exampleTask :: "string \<Rightarrow> int \<Rightarrow> Task" where
  "exampleTask st stp =
     \<lparr>ID = 1, Key = ''job1'', Type = ''import'', State = st, Step = stp, Priority = 512,
      Concurrency = 4, CreateTime = 900, StartTime = 910, StateUpdateTime = 920,
      Meta = ''meta'', SchedulerID = [], Error = None\<rparr>"

definition exampleTaskStore :: "string \<Rightarrow> int \<Rightarrow> store" where
  "exampleTaskStore st stp = exampleStore\<lparr>tidb_global_task := [exampleTaskRow 1 st stp]\<rparr>"

subsection \<open>Notions of the specification\<close>

text \<open>
  The managed nodes as the specification words them: in the registry ordered by host, the
  nodes of role \<^verbatim>\<open>background\<close> if any exist, else the nodes of empty role.
\<close>

definition managedRows :: "store \<Rightarrow> node_row list" where
  "managedRows s =
     (let rows = sort_key n_host (dist_framework_meta s) in
      if \<exists>r \<in> set rows. n_role r = ''background''
      then filter (\<lambda>r. n_role r = ''background'') rows
      else filter (\<lambda>r. n_role r = []) rows)"




section \<open>Properties of the batching\<close>

lemma splitLoop_concat:
  "splitLoop m ss res cur sz = (res', cur') \<Longrightarrow> concat res' @ cur' = concat res @ cur @ ss"
  by (induction ss arbitrary: res cur sz) (auto split: if_splits)

lemma splitLoop_bounded:
  "splitLoop m ss res cur sz = (res', cur') \<Longrightarrow> sz = metaSize cur
   \<Longrightarrow> (1 < length cur \<longrightarrow> metaSize cur \<le> m)
   \<Longrightarrow> (\<forall>b \<in> set res. 1 < length b \<longrightarrow> metaSize b \<le> m)
   \<Longrightarrow> (\<forall>b \<in> set res'. 1 < length b \<longrightarrow> metaSize b \<le> m)
       \<and> (1 < length cur' \<longrightarrow> metaSize cur' \<le> m)"
proof (induction ss arbitrary: res cur sz)
  case Nil
  then show ?case by simp
next
  case (Cons s ss)
  show ?case
  proof (cases "sz + length (subMeta s) > m")
    case True
    with Cons.prems(1) have run: "splitLoop m ss (res @ [cur]) [s] (length (subMeta s)) = (res', cur')"
      by simp
    show ?thesis
      by (rule Cons.IH [OF run]) (use Cons.prems in \<open>auto simp: metaSize_def\<close>)
  next
    case False
    with Cons.prems(1) have run: "splitLoop m ss res (cur @ [s]) (sz + length (subMeta s)) = (res', cur')"
      by simp
    show ?thesis
      by (rule Cons.IH [OF run]) (use Cons.prems False in \<open>auto simp: metaSize_def\<close>)
  qed
qed

text \<open>
  Claim C9. The batches of \<open>splitSubtasks\<close>, concatenated, are the input list in its
  order, so batching neither loses nor duplicates a subtask; and every batch that holds
  more than one subtask has at most
  \<open>min maxSubtaskBatchSize (TxnTotalSizeLimit e)\<close> Meta bytes in total.
\<close>

theorem splitSubtasks_concat_bounded:
  "concat (splitSubtasks e subtasks) = subtasks
   \<and> (\<forall>b \<in> set (splitSubtasks e subtasks).
        1 < length b \<longrightarrow> metaSize b \<le> min maxSubtaskBatchSize (TxnTotalSizeLimit e))"
proof -
  let ?m = "min (TxnTotalSizeLimit e) maxSubtaskBatchSize"
  obtain res cur where run: "splitLoop ?m subtasks [] [] 0 = (res, cur)"
    by (cases "splitLoop ?m subtasks [] [] 0")
  have cat: "concat res @ cur = subtasks"
    using splitLoop_concat [OF run] by simp
  have bnd: "(\<forall>b \<in> set res. 1 < length b \<longrightarrow> metaSize b \<le> ?m)
             \<and> (1 < length cur \<longrightarrow> metaSize cur \<le> ?m)"
    by (rule splitLoop_bounded [OF run]) (simp_all add: metaSize_def)
  have out: "splitSubtasks e subtasks = (if length cur > 0 then res @ [cur] else res)"
    by (simp add: splitSubtasks_def run)
  show ?thesis
    using cat bnd by (auto simp: out min.commute)
qed

theorem splitSubtasks_concat_bounded_witness:
  "concat (splitSubtasks exampleEnv [exampleSubtask 1 1 ''ab'', exampleSubtask 1 1 ''c''])
     = [exampleSubtask 1 1 ''ab'', exampleSubtask 1 1 ''c'']
   \<and> [exampleSubtask 1 1 ''ab'', exampleSubtask 1 1 ''c'']
        \<in> set (splitSubtasks exampleEnv [exampleSubtask 1 1 ''ab'', exampleSubtask 1 1 ''c''])
   \<and> 1 < length [exampleSubtask 1 1 ''ab'', exampleSubtask 1 1 ''c'']
   \<and> metaSize [exampleSubtask 1 1 ''ab'', exampleSubtask 1 1 ''c'']
        \<le> min maxSubtaskBatchSize (TxnTotalSizeLimit exampleEnv)"
proof -
  let ?in = "[exampleSubtask 1 1 ''ab'', exampleSubtask 1 1 ''c'']"
  have run: "splitSubtasks exampleEnv ?in = [?in]"
    by (simp add: splitSubtasks_def exampleEnv_def exampleSubtask_def maxSubtaskBatchSize_def)
  show ?thesis
    using splitSubtasks_concat_bounded [of exampleEnv ?in] by (simp add: run)
qed

section \<open>Sessions on a store that answers every call\<close>

lemma attempt_nofault: "faults s = [] \<Longrightarrow> attempt s = (True, s)"
  by (simp add: attempt_def)

lemma ExecSQL_nofault:
  "faults s = [] \<Longrightarrow> ExecSQL stmt s = (Inr (fst (stmt s)), snd (stmt s))"
  by (simp add: ExecSQL_def attempt_nofault split: prod.splits)

lemma WithNewSession_nofault: "faults s = [] \<Longrightarrow> WithNewSession fn s = fn s"
  by (simp add: WithNewSession_def attempt_nofault)

lemma restoreTables_same: "restoreTables s s = s"
  by (simp add: restoreTables_def)

lemma WithNewTxn_nofault:
  "faults s = [] \<Longrightarrow> fn s = (res, s2) \<Longrightarrow> faults s2 = [] \<Longrightarrow>
   WithNewTxn fn s =
     (case res of Inl err \<Rightarrow> (Inl err, restoreTables s s2) | Inr v \<Rightarrow> (Inr v, s2))"
  by (simp add: WithNewTxn_def WithNewSession_nofault ExecSQL_nofault attempt_nofault
      split: sum.splits)

lemma sqlUpdate_rows:
  "snd (sqlUpdate wh upd rows) = map (\<lambda>r. if wh r then upd r else r) rows"
  by (simp add: sqlUpdate_def)

lemma sqlUpdate_unchanged:
  "fst (sqlUpdate wh upd rows) = 0 \<Longrightarrow> snd (sqlUpdate wh upd rows) = rows"
  by (auto simp: sqlUpdate_def filter_empty_conv intro: map_idI)

lemma sqlUpdate_no_match:
  "\<forall>r \<in> set rows. \<not> wh r \<Longrightarrow> sqlUpdate wh upd rows = (0, rows)"
  by (auto simp: sqlUpdate_def filter_empty_conv intro: map_idI)

lemma sqlUpdate_changed:
  "r \<in> set rows \<Longrightarrow> wh r \<Longrightarrow> upd r \<noteq> r \<Longrightarrow> 0 < fst (sqlUpdate wh upd rows)"
  by (auto simp: sqlUpdate_def filter_empty_conv)

section \<open>Admission of a task\<close>

lemma getAllNodes_nofault:
  "faults s = [] \<Longrightarrow>
   getAllNodesWithSession s = (Inr (map nodeOfRow (sort_key n_host (dist_framework_meta s))), s)"
  by (simp add: getAllNodesWithSession_def ExecSQL_nofault)

lemma filter_Role_map:
  "filter (\<lambda>n. Role n = x) (map nodeOfRow rows) = map nodeOfRow (filter (\<lambda>r. n_role r = x) rows)"
  by (induction rows) (simp_all add: nodeOfRow_def)

lemma getManagedNodes_nofault:
  "faults s = [] \<Longrightarrow> getManagedNodesWithSession s = (Inr (map nodeOfRow (managedRows s)), s)"
  by (auto simp: getManagedNodesWithSession_def getAllNodes_nofault filter_Role_map managedRows_def
      Let_def filter_empty_conv)

lemma firstCPUCount_find:
  "firstCPUCount (map nodeOfRow rows) =
     (case find (\<lambda>r. n_cpu_count r > 0) rows of None \<Rightarrow> 0 | Some r \<Rightarrow> n_cpu_count r)"
  by (induction rows) (simp_all add: nodeOfRow_def)

lemma getCPUCount_nofault:
  "faults s = [] \<Longrightarrow>
   getCPUCountOfManagedNode s =
     (if managedRows s = [] then (Inl ErrNoManagedNodes, s)
      else case find (\<lambda>r. n_cpu_count r > 0) (managedRows s) of
             None \<Rightarrow> (Inl ErrNoUsableCapacity, s)
           | Some r \<Rightarrow> (Inr (n_cpu_count r), s))"
  by (auto simp: getCPUCountOfManagedNode_def getManagedNodes_nofault firstCPUCount_find
      split: option.splits dest: find_Some_iff[THEN iffD1])

text \<open>
  Claim C5. On a store that answers every call, with \<open>k\<close> the CPU count of the first
  managed node (in the order of the registry) whose CPU count is positive:
  \<open>CreateTask\<close> with concurrency \<open>c\<close> succeeds if and only if \<open>c \<le> k\<close>, and then it
  appends exactly one row, of state pending and step init, and returns its id; with
  \<open>k < c\<close> it fails and writes nothing. Without managed nodes it fails with
  \<open>ErrNoManagedNodes\<close>; when no managed node has a positive CPU count it fails with
  \<open>ErrNoUsableCapacity\<close>.
\<close>

theorem CreateTask_capacity_gate:
  assumes "faults s = []"
  shows "(managedRows s = [] \<longrightarrow> CreateTask e key tp c meta s = (Inl ErrNoManagedNodes, s))
    \<and> (managedRows s \<noteq> [] \<and> (\<forall>r \<in> set (managedRows s). n_cpu_count r \<le> 0) \<longrightarrow>
         CreateTask e key tp c meta s = (Inl ErrNoUsableCapacity, s))
    \<and> (\<forall>r. find (\<lambda>r. n_cpu_count r > 0) (managedRows s) = Some r \<longrightarrow>
         ((\<exists>taskID s'. CreateTask e key tp c meta s = (Inr taskID, s')) \<longleftrightarrow> c \<le> n_cpu_count r)
       \<and> (c \<le> n_cpu_count r \<longrightarrow>
            CreateTask e key tp c meta s =
              (Inr (last_task_id s + 1),
               s\<lparr>tidb_global_task := tidb_global_task s @
                    [\<lparr>c_id = last_task_id s + 1, c_task_key = key, c_type = tp,
                      c_state = TaskStatePending, c_step = StepInit e,
                      c_priority = NormalPriority e, c_concurrency = c,
                      c_create_time = clock s, c_start_time = None,
                      c_state_update_time = None, c_meta = meta, c_dispatcher_id = [],
                      c_error = None\<rparr>],
                 last_task_id := last_task_id s + 1\<rparr>))
       \<and> (n_cpu_count r < c \<longrightarrow>
            CreateTask e key tp c meta s =
              (Inl (ErrConcurrencyExceedsCapacity c (n_cpu_count r)), s)))"
proof -
  have none: "CreateTask e key tp c meta s = (Inl ErrNoManagedNodes, s)"
    if "managedRows s = []"
    using assms that
    by (simp add: CreateTask_def WithNewSession_nofault CreateTaskWithSession_def
        getCPUCount_nofault)
  have zero: "CreateTask e key tp c meta s = (Inl ErrNoUsableCapacity, s)"
    if ne: "managedRows s \<noteq> []" and z: "\<forall>r \<in> set (managedRows s). n_cpu_count r \<le> 0"
  proof -
    from z have "find (\<lambda>r. n_cpu_count r > 0) (managedRows s) = None"
      by (auto simp: find_None_iff)
    with ne assms show ?thesis
      by (simp add: CreateTask_def WithNewSession_nofault CreateTaskWithSession_def
          getCPUCount_nofault)
  qed
  have fits: "CreateTask e key tp c meta s =
              (Inr (last_task_id s + 1),
               s\<lparr>tidb_global_task := tidb_global_task s @
                    [\<lparr>c_id = last_task_id s + 1, c_task_key = key, c_type = tp,
                      c_state = TaskStatePending, c_step = StepInit e,
                      c_priority = NormalPriority e, c_concurrency = c,
                      c_create_time = clock s, c_start_time = None,
                      c_state_update_time = None, c_meta = meta, c_dispatcher_id = [],
                      c_error = None\<rparr>],
                 last_task_id := last_task_id s + 1\<rparr>)"
    if f: "find (\<lambda>r. n_cpu_count r > 0) (managedRows s) = Some r" and le: "c \<le> n_cpu_count r"
    for r
  proof -
    from f have ne: "managedRows s \<noteq> []" by auto
    show ?thesis
      using assms f le ne
      by (simp add: CreateTask_def WithNewSession_nofault CreateTaskWithSession_def
          getCPUCount_nofault ExecSQL_nofault sqlInsertTask_def newTaskRow_def)
  qed
  have exceeds: "CreateTask e key tp c meta s =
                   (Inl (ErrConcurrencyExceedsCapacity c (n_cpu_count r)), s)"
    if f: "find (\<lambda>r. n_cpu_count r > 0) (managedRows s) = Some r" and gt: "n_cpu_count r < c"
    for r
  proof -
    from f have ne: "managedRows s \<noteq> []" by auto
    show ?thesis
      using assms f gt ne
      by (simp add: CreateTask_def WithNewSession_nofault CreateTaskWithSession_def
          getCPUCount_nofault)
  qed
  have iff: "(\<exists>taskID s'. CreateTask e key tp c meta s = (Inr taskID, s')) \<longleftrightarrow> c \<le> n_cpu_count r"
    if f: "find (\<lambda>r. n_cpu_count r > 0) (managedRows s) = Some r" for r
  proof (cases "c \<le> n_cpu_count r")
    case True
    then show ?thesis using fits [OF f] by simp
  next
    case False
    then show ?thesis using exceeds [OF f] by simp
  qed
  show ?thesis
    using none zero fits exceeds iff by blast
qed

theorem CreateTask_capacity_gate_witness:
  "faults exampleStore = []
   \<and> find (\<lambda>r. n_cpu_count r > 0) (managedRows exampleStore)
       = Some \<lparr>n_host = ''n1'', n_role = [], n_cpu_count = 8\<rparr>
   \<and> (4::int) \<le> n_cpu_count \<lparr>n_host = ''n1'', n_role = [], n_cpu_count = 8\<rparr>
   \<and> fst (CreateTask exampleEnv ''job1'' ''import'' 4 ''meta'' exampleStore) = Inr 1
   \<and> map c_state (tidb_global_task
        (snd (CreateTask exampleEnv ''job1'' ''import'' 4 ''meta'' exampleStore)))
       = [TaskStatePending]
   \<and> map c_step (tidb_global_task
        (snd (CreateTask exampleEnv ''job1'' ''import'' 4 ''meta'' exampleStore)))
       = [StepInit exampleEnv]"
proof -
  have nofault: "faults exampleStore = []"
    by (simp add: exampleStore_def)
  have first: "find (\<lambda>r. n_cpu_count r > 0) (managedRows exampleStore)
                 = Some \<lparr>n_host = ''n1'', n_role = [], n_cpu_count = 8\<rparr>"
    by (simp add: managedRows_def exampleStore_def)
  show ?thesis
    using CreateTask_capacity_gate [OF nofault, of exampleEnv "''job1''" "''import''" 4 "''meta''"]
      nofault first
    by (simp add: exampleStore_def)
qed

section \<open>Starting a subtask\<close>

lemma sqlStartSubtask_faults: "faults (snd (sqlStartSubtask i x s)) = faults s"
  by (simp add: sqlStartSubtask_def split: prod.splits)

lemma sqlStartSubtask_rows:
  "tidb_background_subtask (snd (sqlStartSubtask i x s)) =
     map (\<lambda>r. if s_id r = i \<and> s_exec_id r = x
               then r\<lparr>s_state := TaskStateRunning, s_start_time := Some (clock s),
                      s_state_update_time := Some (clock s)\<rparr>
               else r) (tidb_background_subtask s)"
  by (simp add: sqlStartSubtask_def sqlUpdate_def)

text \<open>
  Claim C7. On a store that answers every call: when no row of the subtask table has the
  given id together with the exec id \<open>execA\<close> (the row of that id is owned by another
  node, or there is no row of that id), whatever the state of the row,
  \<open>StartSubtask subtaskID execA\<close> fails with \<open>ErrSubtaskNotFound\<close> and leaves the store
  as it was: the update affects no row and that is made the error.
\<close>

theorem StartSubtask_not_owner:
  assumes "faults s = []"
    and "\<forall>r \<in> set (tidb_background_subtask s). s_id r = subtaskID \<longrightarrow> s_exec_id r \<noteq> execA"
  shows "StartSubtask subtaskID execA s = (Inl ErrSubtaskNotFound, s)"
proof -
  have upd: "sqlStartSubtask subtaskID execA s = (0, s)"
    using assms(2) by (simp add: sqlStartSubtask_def sqlUpdate_no_match)
  let ?body = "\<lambda>s. case ExecSQL (sqlStartSubtask subtaskID execA) s of
         (Inl err, s1) \<Rightarrow> (Inl err, s1)
       | (Inr affectedRows, s1) \<Rightarrow>
           if affectedRows = 0 then (Inl ErrSubtaskNotFound, s1) else (Inr (), s1)"
  have body: "?body s = (Inl ErrSubtaskNotFound, s)"
    using assms(1) by (simp add: ExecSQL_nofault upd)
  show ?thesis
    unfolding StartSubtask_def
    using WithNewTxn_nofault [of s ?body, OF assms(1) body assms(1)]
    by (simp add: restoreTables_same)
qed

theorem StartSubtask_not_owner_witness:
  "faults (exampleStore\<lparr>tidb_background_subtask := [exampleSubtaskRow 1 ''n2'' ''succeed'']\<rparr>) = []
   \<and> s_exec_id (exampleSubtaskRow 1 ''n2'' ''succeed'') \<noteq> ''n1''
   \<and> StartSubtask 1 ''n1''
        (exampleStore\<lparr>tidb_background_subtask := [exampleSubtaskRow 1 ''n2'' ''succeed'']\<rparr>)
      = (Inl ErrSubtaskNotFound,
         exampleStore\<lparr>tidb_background_subtask := [exampleSubtaskRow 1 ''n2'' ''succeed'']\<rparr>)"
proof -
  let ?s = "exampleStore\<lparr>tidb_background_subtask := [exampleSubtaskRow 1 ''n2'' ''succeed'']\<rparr>"
  have nofault: "faults ?s = []"
    by (simp add: exampleStore_def)
  have other: "\<forall>r \<in> set (tidb_background_subtask ?s). s_id r = 1 \<longrightarrow> s_exec_id r \<noteq> ''n1''"
    by (simp add: exampleSubtaskRow_def)
  show ?thesis
    using StartSubtask_not_owner [OF nofault other] nofault
    by (simp add: exampleSubtaskRow_def)
qed

text \<open>
  Claim C10. The update of \<open>StartSubtask\<close> selects by id and exec id only. On a store
  that answers every call, after \<open>StartSubtask subtaskID execID\<close> every row of that id and
  exec id has the state running and the present time as start time and update time, and
  all other rows are as before, whatever the state of the row was; and when such a row
  was in a state other than running (succeed, failed and canceled among them) the call
  returns without error.
\<close>

theorem StartSubtask_any_state:
  assumes "faults s = []"
  shows "tidb_background_subtask (snd (StartSubtask subtaskID execID s)) =
           map (\<lambda>r. if s_id r = subtaskID \<and> s_exec_id r = execID
                     then r\<lparr>s_state := TaskStateRunning, s_start_time := Some (clock s),
                            s_state_update_time := Some (clock s)\<rparr>
                     else r) (tidb_background_subtask s)
       \<and> (\<forall>r \<in> set (tidb_background_subtask s).
             s_id r = subtaskID \<and> s_exec_id r = execID \<and> s_state r \<noteq> TaskStateRunning \<longrightarrow>
             fst (StartSubtask subtaskID execID s) = Inr ())"
proof -
  let ?upd = "\<lambda>r. r\<lparr>s_state := TaskStateRunning, s_start_time := Some (clock s),
                            s_state_update_time := Some (clock s)\<rparr>"
  let ?wh = "\<lambda>r. s_id r = subtaskID \<and> s_exec_id r = execID"
  obtain n s1 where st: "sqlStartSubtask subtaskID execID s = (n, s1)"
    by (cases "sqlStartSubtask subtaskID execID s")
  have f1: "faults s1 = []"
    using sqlStartSubtask_faults [of subtaskID execID s] st assms by simp
  have rows1: "tidb_background_subtask s1 =
                 map (\<lambda>r. if ?wh r then ?upd r else r) (tidb_background_subtask s)"
    using sqlStartSubtask_rows [of subtaskID execID s] st by simp
  have n_def: "n = fst (sqlUpdate ?wh ?upd (tidb_background_subtask s))"
    using st by (simp add: sqlStartSubtask_def split: prod.splits)
  let ?body = "\<lambda>s. case ExecSQL (sqlStartSubtask subtaskID execID) s of
         (Inl err, s1) \<Rightarrow> (Inl err, s1)
       | (Inr affectedRows, s1) \<Rightarrow>
           if affectedRows = 0 then (Inl ErrSubtaskNotFound, s1) else (Inr (), s1)"
  have body: "?body s = (if n = 0 then Inl ErrSubtaskNotFound else Inr (), s1)"
    using assms by (simp add: ExecSQL_nofault st)
  have run: "StartSubtask subtaskID execID s =
     (if n = 0 then (Inl ErrSubtaskNotFound, restoreTables s s1) else (Inr (), s1))"
    unfolding StartSubtask_def
    using WithNewTxn_nofault [of s ?body, OF assms body f1] by simp
  have tab: "tidb_background_subtask (snd (StartSubtask subtaskID execID s)) =
           map (\<lambda>r. if ?wh r then ?upd r else r) (tidb_background_subtask s)"
  proof (cases "n = 0")
    case True
    then have "snd (sqlUpdate ?wh ?upd (tidb_background_subtask s)) = tidb_background_subtask s"
      unfolding n_def by (rule sqlUpdate_unchanged)
    then show ?thesis
      using True by (simp add: run restoreTables_def sqlUpdate_rows)
  next
    case False
    then show ?thesis by (simp add: run rows1)
  qed
  have ok: "fst (StartSubtask subtaskID execID s) = Inr ()"
    if "r \<in> set (tidb_background_subtask s)" "?wh r" "s_state r \<noteq> TaskStateRunning" for r
  proof -
    have "?upd r \<noteq> r"
    proof
      assume "?upd r = r"
      then have "s_state (?upd r) = s_state r" by simp
      with that(3) show False by simp
    qed
    then have "0 < n"
      unfolding n_def using that(1,2) by (intro sqlUpdate_changed [of r]) auto
    then show ?thesis by (simp add: run)
  qed
  show ?thesis using tab ok by blast
qed

theorem StartSubtask_any_state_witness:
  "faults (exampleStore\<lparr>tidb_background_subtask := [exampleSubtaskRow 1 ''n1'' ''succeed'']\<rparr>) = []
   \<and> exampleSubtaskRow 1 ''n1'' ''succeed''
       \<in> set (tidb_background_subtask
           (exampleStore\<lparr>tidb_background_subtask := [exampleSubtaskRow 1 ''n1'' ''succeed'']\<rparr>))
   \<and> s_state (exampleSubtaskRow 1 ''n1'' ''succeed'') \<noteq> TaskStateRunning
   \<and> fst (StartSubtask 1 ''n1''
        (exampleStore\<lparr>tidb_background_subtask := [exampleSubtaskRow 1 ''n1'' ''succeed'']\<rparr>))
      = Inr ()
   \<and> map s_state (tidb_background_subtask (snd (StartSubtask 1 ''n1''
        (exampleStore\<lparr>tidb_background_subtask := [exampleSubtaskRow 1 ''n1'' ''succeed'']\<rparr>))))
      = [''running'']
   \<and> map s_start_time (tidb_background_subtask (snd (StartSubtask 1 ''n1''
        (exampleStore\<lparr>tidb_background_subtask := [exampleSubtaskRow 1 ''n1'' ''succeed'']\<rparr>))))
      = [Some 1000]"
proof -
  let ?s = "exampleStore\<lparr>tidb_background_subtask := [exampleSubtaskRow 1 ''n1'' ''succeed'']\<rparr>"
  have nofault: "faults ?s = []"
    by (simp add: exampleStore_def)
  show ?thesis
    using StartSubtask_any_state [OF nofault, of 1 "''n1''"] nofault
    by (simp add: exampleSubtaskRow_def TaskStateRunning_def exampleStore_def)
qed

section \<open>The unfinished tasks\<close>






section \<open>Stored errors that do not decode\<close>

lemma collectErrors_malformed:
  "Some errBytes \<in> set rows \<Longrightarrow> errBytes \<noteq> [] \<Longrightarrow> UnmarshalJSON e errBytes = Inl msg \<Longrightarrow>
   \<exists>msg'. collectErrors e rows acc = Inl (ErrUnmarshal msg')"
proof (induction rows arbitrary: acc)
  case Nil
  then show ?case by simp
next
  case (Cons row rows)
  show ?case
  proof (cases "row = Some errBytes")
    case True
    with Cons.prems show ?thesis by simp
  next
    case False
    with Cons.prems have "Some errBytes \<in> set rows" by simp
    from Cons.IH [OF this Cons.prems(2,3)] show ?thesis
      by (auto split: option.splits sum.splits)
  qed
qed

text \<open>
  Claim C4, as the code has it. \<open>row2Task\<close> turns error bytes that the JSON decoder
  rejects into a plain error made of those bytes, and has no failure of its own.
  \<open>CollectSubTaskError\<close> does not: on a store that answers every call, when a failed or
  canceled subtask of the task holds error bytes that are not empty and that the decoder
  rejects, it returns the error of the decoder and no list of subtask errors.
\<close>

theorem malformed_error_bytes:
  "(c_error r = Some errBytes \<and> UnmarshalJSON e errBytes = Inl msg \<longrightarrow>
      Error (row2Task e r) = Some (PlainErr errBytes))
   \<and> (faults s = [] \<and> sr \<in> set (tidb_background_subtask s) \<and> s_task_key sr = taskID
       \<and> s_state sr \<in> {SubtaskStateFailed, SubtaskStateCanceled}
       \<and> s_error sr = Some errBytes \<and> errBytes \<noteq> [] \<and> UnmarshalJSON e errBytes = Inl msg \<longrightarrow>
      (\<exists>msg'. CollectSubTaskError e taskID s = (Inl (ErrUnmarshal msg'), s)))"
proof -
  have task: "Error (row2Task e r) = Some (PlainErr errBytes)"
    if "c_error r = Some errBytes" "UnmarshalJSON e errBytes = Inl msg"
    using that by (simp add: row2Task_def)
  have sub: "\<exists>msg'. CollectSubTaskError e taskID s = (Inl (ErrUnmarshal msg'), s)"
    if nofault: "faults s = []" and sr: "sr \<in> set (tidb_background_subtask s)"
      and sel: "s_task_key sr = taskID" "s_state sr \<in> {SubtaskStateFailed, SubtaskStateCanceled}"
      and bad: "s_error sr = Some errBytes" "errBytes \<noteq> []" "UnmarshalJSON e errBytes = Inl msg"
  proof -
    let ?rs = "map s_error
                      (filter (\<lambda>r. s_task_key r = taskID
                                   \<and> s_state r \<in> set [SubtaskStateFailed, SubtaskStateCanceled])
                         (tidb_background_subtask s))"
    have "s_error sr \<in> set ?rs"
      using sr sel by (auto simp: image_iff)
    then have "Some errBytes \<in> set ?rs"
      by (simp only: bad(1))
    from collectErrors_malformed [OF this bad(2,3), of "[]"]
    obtain msg' where "collectErrors e ?rs [] = Inl (ErrUnmarshal msg')" ..
    then have "CollectSubTaskError e taskID s = (Inl (ErrUnmarshal msg'), s)"
      using nofault
      by (simp add: CollectSubTaskError_def ExecuteSQLWithNewSession_def WithNewSession_nofault
          ExecSQL_nofault)
    then show ?thesis ..
  qed
  show ?thesis using task sub by blast
qed

theorem malformed_error_bytes_witness:
  "c_error ((exampleTaskRow 1 TaskStateFailed 1)\<lparr>c_error := Some ''oops''\<rparr>) = Some ''oops''
   \<and> UnmarshalJSON exampleEnv ''oops'' = Inl ''invalid character''
   \<and> Error (row2Task exampleEnv ((exampleTaskRow 1 TaskStateFailed 1)\<lparr>c_error := Some ''oops''\<rparr>))
       = Some (PlainErr ''oops'')
   \<and> faults (exampleStore\<lparr>tidb_background_subtask :=
           [(exampleSubtaskRow 1 ''n1'' SubtaskStateFailed)\<lparr>s_error := Some ''oops''\<rparr>]\<rparr>) = []
   \<and> (\<exists>msg'. CollectSubTaskError exampleEnv 1
        (exampleStore\<lparr>tidb_background_subtask :=
           [(exampleSubtaskRow 1 ''n1'' SubtaskStateFailed)\<lparr>s_error := Some ''oops''\<rparr>]\<rparr>)
      = (Inl (ErrUnmarshal msg'),
         exampleStore\<lparr>tidb_background_subtask :=
           [(exampleSubtaskRow 1 ''n1'' SubtaskStateFailed)\<lparr>s_error := Some ''oops''\<rparr>]\<rparr>))"
proof -
  let ?r = "(exampleTaskRow 1 TaskStateFailed 1)\<lparr>c_error := Some ''oops''\<rparr>"
  let ?sr = "(exampleSubtaskRow 1 ''n1'' SubtaskStateFailed)\<lparr>s_error := Some ''oops''\<rparr>"
  let ?s = "exampleStore\<lparr>tidb_background_subtask := [?sr]\<rparr>"
  have bad: "UnmarshalJSON exampleEnv ''oops'' = Inl ''invalid character''"
    by (simp add: exampleEnv_def)
  have nofault: "faults ?s = []"
    by (simp add: exampleStore_def)
  have row: "c_error ?r = Some ''oops''" by simp
  have sel: "?sr \<in> set (tidb_background_subtask ?s)" "s_task_key ?sr = 1"
    "s_state ?sr \<in> {SubtaskStateFailed, SubtaskStateCanceled}" "s_error ?sr = Some ''oops''"
    by (simp_all add: exampleSubtaskRow_def)
  have ne: "''oops'' \<noteq> []" by simp
  show ?thesis
    using malformed_error_bytes [of ?r "''oops''" exampleEnv "''invalid character''" ?s ?sr 1]
      bad nofault row sel ne
    by blast
qed

text \<open>
  Claim C4 as stated fails for \<open>CollectSubTaskError\<close>: the one failed subtask of task 1
  holds the error bytes \<^verbatim>\<open>oops\<close>, which the decoder rejects, and the read returns the
  error of the decoder.
\<close>

theorem CollectSubTaskError_malformed_counterexample:
  "UnmarshalJSON exampleEnv ''oops'' = Inl ''invalid character''
   \<and> CollectSubTaskError exampleEnv 1
        (exampleStore\<lparr>tidb_background_subtask :=
           [(exampleSubtaskRow 1 ''n1'' SubtaskStateFailed)\<lparr>s_error := Some ''oops''\<rparr>]\<rparr>)
      = (Inl (ErrUnmarshal ''invalid character''),
         exampleStore\<lparr>tidb_background_subtask :=
           [(exampleSubtaskRow 1 ''n1'' SubtaskStateFailed)\<lparr>s_error := Some ''oops''\<rparr>]\<rparr>)"
  by (simp add: CollectSubTaskError_def ExecuteSQLWithNewSession_def WithNewSession_def
      ExecSQL_def attempt_def exampleStore_def exampleSubtaskRow_def exampleEnv_def
      SubtaskStateFailed_def SubtaskStateCanceled_def)

section \<open>Switching the step in one transaction\<close>

lemma insertSubtasks_nofault:
  "faults s = [] \<Longrightarrow>
   insertSubtasks e subtasks s =
     (Inr (), s\<lparr>tidb_background_subtask :=
                  tidb_background_subtask s
                  @ assignIDs (last_subtask_id s) (map (\<lambda>st. pendingSubtaskRow e st s) subtasks),
                last_subtask_id := last_subtask_id s + int (length subtasks)\<rparr>)"
  by (simp add: insertSubtasks_def ExecSQL_nofault sqlInsertSubtaskRows_def)

lemma updateTaskStateStep_nofault:
  "faults s = [] \<Longrightarrow>
   updateTaskStateStep task ns np s =
     (Inr (fst (sqlUpdate (taskAt task) (setStateStep task ns np (clock s)) (tidb_global_task s))),
      s\<lparr>tidb_global_task :=
          snd (sqlUpdate (taskAt task) (setStateStep task ns np (clock s)) (tidb_global_task s))\<rparr>)"
  by (simp add: updateTaskStateStep_def ExecSQL_nofault sqlUpdateTaskStateStep_def
      split: prod.splits)




lemma assignIDs_map: "map f (assignIDs n rows) = map f rows"
  if "\<And>r i. f (r\<lparr>s_id := i\<rparr>) = f r"
  using that by (induction rows arbitrary: n) simp_all







section \<open>Switching the step in batches\<close>

lemma splitSubtasks_concat: "concat (splitSubtasks e subtasks) = subtasks"
proof -
  let ?m = "min (TxnTotalSizeLimit e) maxSubtaskBatchSize"
  obtain res cur where run: "splitLoop ?m subtasks [] [] 0 = (res, cur)"
    by (cases "splitLoop ?m subtasks [] [] 0")
  from splitLoop_concat [OF run] show ?thesis
    by (auto simp: splitSubtasks_def run)
qed

lemma assignIDs_append:
  "assignIDs n (xs @ ys) = assignIDs n xs @ assignIDs (n + int (length xs)) ys"
  by (induction xs arbitrary: n) (simp_all add: add.assoc)

lemma insertBatches_nofault:
  "faults s = [] \<Longrightarrow>
   insertBatches e batches s =
     (Inr (), s\<lparr>tidb_background_subtask :=
                  tidb_background_subtask s
                  @ assignIDs (last_subtask_id s)
                      (map (\<lambda>st. pendingSubtaskRow e st s) (concat batches)),
                last_subtask_id := last_subtask_id s + int (length (concat batches))\<rparr>)"
proof (induction batches arbitrary: s)
  case Nil
  then show ?case by simp
next
  case (Cons batch batches)
  let ?s1 = "s\<lparr>tidb_background_subtask :=
                  tidb_background_subtask s
                  @ assignIDs (last_subtask_id s) (map (\<lambda>st. pendingSubtaskRow e st s) batch),
                last_subtask_id := last_subtask_id s + int (length batch)\<rparr>"
  have one: "insertSubtasks e batch s = (Inr (), ?s1)"
    using Cons.prems by (rule insertSubtasks_nofault)
  have f1: "faults ?s1 = []"
    using Cons.prems by simp
  have "insertBatches e (batch # batches) s = insertBatches e batches ?s1"
    by (simp add: one)
  also note Cons.IH [OF f1]
  finally show ?case
    by (simp add: assignIDs_append pendingSubtaskRow_def add.assoc)
qed

lemma SwitchTaskStepInBatch_nofault:
  assumes "faults s = []"
  shows "SwitchTaskStepInBatch e task ns np subtasks s =
     (if length subtasks
           < length (filter (\<lambda>r. s_task_key r = ID task \<and> s_step r = np) (tidb_background_subtask s))
      then (Inl (ErrUnstableSubtasks (length subtasks)
                   (length (filter (\<lambda>r. s_task_key r = ID task \<and> s_step r = np)
                              (tidb_background_subtask s)))), s)
      else (Inr (),
            s\<lparr>tidb_background_subtask :=
                 tidb_background_subtask s
                 @ assignIDs (last_subtask_id s)
                     (map (\<lambda>st. pendingSubtaskRow e st s)
                        (drop (length (filter (\<lambda>r. s_task_key r = ID task \<and> s_step r = np)
                                         (tidb_background_subtask s))) subtasks)),
               last_subtask_id :=
                 last_subtask_id s
                 + int (length subtasks
                        - length (filter (\<lambda>r. s_task_key r = ID task \<and> s_step r = np)
                                    (tidb_background_subtask s))),
               tidb_global_task :=
                 snd (sqlUpdate (taskAt task) (setStateStep task ns np (clock s))
                        (tidb_global_task s))\<rparr>))"
  using assms
  by (simp add: SwitchTaskStepInBatch_def WithNewSession_nofault ExecSQL_nofault
      sqlCountSubtasks_def insertBatches_nofault splitSubtasks_concat
      updateTaskStateStep_nofault)

text \<open>
  Claim C6, as the code has it. On a store that answers every call, with \<open>n\<close> the number
  of stored subtasks of the task and the next step: \<open>SwitchTaskStepInBatch\<close> fails with
  \<open>ErrUnstableSubtasks\<close> if and only if \<open>n\<close> exceeds the number of given subtasks, and
  then writes nothing. Otherwise it returns without error, having inserted the given
  subtasks but the first \<open>n\<close>, and having applied the update of
  \<open>updateTaskStateStep\<close>, which is conditional on the id, state and step of the task
  object: a task table without such a row is left as it was. The number of rows the
  update affects is not looked at.
\<close>

theorem SwitchTaskStepInBatch_conditional_update:
  assumes "faults s = []"
    and "n = length (filter (\<lambda>r. s_task_key r = ID task \<and> s_step r = nextStep)
                       (tidb_background_subtask s))"
  shows "((\<exists>a b. fst (SwitchTaskStepInBatch e task nextState nextStep subtasks s)
                  = Inl (ErrUnstableSubtasks a b)) \<longleftrightarrow> length subtasks < n)
    \<and> (length subtasks < n \<longrightarrow>
         SwitchTaskStepInBatch e task nextState nextStep subtasks s
           = (Inl (ErrUnstableSubtasks (length subtasks) n), s))
    \<and> (n \<le> length subtasks \<longrightarrow>
         fst (SwitchTaskStepInBatch e task nextState nextStep subtasks s) = Inr ()
       \<and> tidb_background_subtask (snd (SwitchTaskStepInBatch e task nextState nextStep subtasks s))
           = tidb_background_subtask s
             @ assignIDs (last_subtask_id s)
                 (map (\<lambda>st. pendingSubtaskRow e st s) (drop n subtasks))
       \<and> tidb_global_task (snd (SwitchTaskStepInBatch e task nextState nextStep subtasks s))
           = map (\<lambda>r. if taskAt task r then setStateStep task nextState nextStep (clock s) r else r)
               (tidb_global_task s)
       \<and> ((\<forall>r \<in> set (tidb_global_task s). \<not> taskAt task r) \<longrightarrow>
            tidb_global_task (snd (SwitchTaskStepInBatch e task nextState nextStep subtasks s))
              = tidb_global_task s))"
proof -
  note run = SwitchTaskStepInBatch_nofault [OF assms(1), of e task nextState nextStep subtasks,
      folded assms(2)]
  have unstable: "SwitchTaskStepInBatch e task nextState nextStep subtasks s
           = (Inl (ErrUnstableSubtasks (length subtasks) n), s)" if "length subtasks < n"
    using that by (simp add: run)
  have ok: "fst (SwitchTaskStepInBatch e task nextState nextStep subtasks s) = Inr ()"
    and subs: "tidb_background_subtask (snd (SwitchTaskStepInBatch e task nextState nextStep subtasks s))
           = tidb_background_subtask s
             @ assignIDs (last_subtask_id s)
                 (map (\<lambda>st. pendingSubtaskRow e st s) (drop n subtasks))"
    and tasks: "tidb_global_task (snd (SwitchTaskStepInBatch e task nextState nextStep subtasks s))
           = map (\<lambda>r. if taskAt task r then setStateStep task nextState nextStep (clock s) r else r)
               (tidb_global_task s)"
    if "n \<le> length subtasks"
    using that by (simp_all add: run sqlUpdate_rows)
  have same: "tidb_global_task (snd (SwitchTaskStepInBatch e task nextState nextStep subtasks s))
              = tidb_global_task s"
    if "n \<le> length subtasks" "\<forall>r \<in> set (tidb_global_task s). \<not> taskAt task r"
    using that by (simp add: run sqlUpdate_no_match)
  have iff: "(\<exists>a b. fst (SwitchTaskStepInBatch e task nextState nextStep subtasks s)
                  = Inl (ErrUnstableSubtasks a b)) \<longleftrightarrow> length subtasks < n"
  proof (cases "length subtasks < n")
    case True
    then show ?thesis using unstable by simp
  next
    case False
    then have "n \<le> length subtasks" by simp
    from ok [OF this] False show ?thesis by simp
  qed
  show ?thesis
    using iff unstable ok subs tasks same by blast
qed

theorem SwitchTaskStepInBatch_conditional_update_witness:
  "faults ((exampleTaskStore ''running'' 1)
             \<lparr>tidb_background_subtask := [(exampleSubtaskRow 1 ''n1'' ''pending'')\<lparr>s_step := 2\<rparr>]\<rparr>) = []
   \<and> (1::nat) = length (filter (\<lambda>r. s_task_key r = ID (exampleTask ''running'' 1) \<and> s_step r = 2)
          (tidb_background_subtask ((exampleTaskStore ''running'' 1)
             \<lparr>tidb_background_subtask := [(exampleSubtaskRow 1 ''n1'' ''pending'')\<lparr>s_step := 2\<rparr>]\<rparr>)))
   \<and> (1::nat) \<le> length [exampleSubtask 1 2 ''a'', exampleSubtask 1 2 ''b'']
   \<and> fst (SwitchTaskStepInBatch exampleEnv (exampleTask ''running'' 1) ''running'' 2
            [exampleSubtask 1 2 ''a'', exampleSubtask 1 2 ''b'']
            ((exampleTaskStore ''running'' 1)
               \<lparr>tidb_background_subtask := [(exampleSubtaskRow 1 ''n1'' ''pending'')\<lparr>s_step := 2\<rparr>]\<rparr>))
      = Inr ()
   \<and> map s_meta (tidb_background_subtask
        (snd (SwitchTaskStepInBatch exampleEnv (exampleTask ''running'' 1) ''running'' 2
            [exampleSubtask 1 2 ''a'', exampleSubtask 1 2 ''b'']
            ((exampleTaskStore ''running'' 1)
               \<lparr>tidb_background_subtask := [(exampleSubtaskRow 1 ''n1'' ''pending'')\<lparr>s_step := 2\<rparr>]\<rparr>))))
      = [''range'', ''b'']
   \<and> map c_step (tidb_global_task
        (snd (SwitchTaskStepInBatch exampleEnv (exampleTask ''running'' 1) ''running'' 2
            [exampleSubtask 1 2 ''a'', exampleSubtask 1 2 ''b'']
            ((exampleTaskStore ''running'' 1)
               \<lparr>tidb_background_subtask := [(exampleSubtaskRow 1 ''n1'' ''pending'')\<lparr>s_step := 2\<rparr>]\<rparr>))))
      = [2]"
proof -
  let ?s = "(exampleTaskStore ''running'' 1)
             \<lparr>tidb_background_subtask := [(exampleSubtaskRow 1 ''n1'' ''pending'')\<lparr>s_step := 2\<rparr>]\<rparr>"
  let ?task = "exampleTask ''running'' 1"
  let ?subtasks = "[exampleSubtask 1 2 ''a'', exampleSubtask 1 2 ''b'']"
  have nofault: "faults ?s = []"
    by (simp add: exampleTaskStore_def exampleStore_def)
  have cnt: "(1::nat) = length (filter (\<lambda>r. s_task_key r = ID ?task \<and> s_step r = 2)
                                 (tidb_background_subtask ?s))"
    by (simp add: exampleSubtaskRow_def exampleTask_def)
  have le: "(1::nat) \<le> length ?subtasks" by simp
  from SwitchTaskStepInBatch_conditional_update [OF nofault cnt, of exampleEnv "''running''" ?subtasks]
    le
  have ok: "fst (SwitchTaskStepInBatch exampleEnv ?task ''running'' 2 ?subtasks ?s) = Inr ()"
    and subs: "tidb_background_subtask (snd (SwitchTaskStepInBatch exampleEnv ?task ''running'' 2 ?subtasks ?s))
           = tidb_background_subtask ?s
             @ assignIDs (last_subtask_id ?s)
                 (map (\<lambda>st. pendingSubtaskRow exampleEnv st ?s) (drop 1 ?subtasks))"
    and tasks: "tidb_global_task (snd (SwitchTaskStepInBatch exampleEnv ?task ''running'' 2 ?subtasks ?s))
           = map (\<lambda>r. if taskAt ?task r then setStateStep ?task ''running'' 2 (clock ?s) r else r)
               (tidb_global_task ?s)"
    by blast+
  have metas: "map s_meta (tidb_background_subtask
                 (snd (SwitchTaskStepInBatch exampleEnv ?task ''running'' 2 ?subtasks ?s)))
               = [''range'', ''b'']"
    unfolding subs
    by (simp add: assignIDs_map pendingSubtaskRow_def exampleSubtask_def exampleSubtaskRow_def)
  have steps: "map c_step (tidb_global_task
                 (snd (SwitchTaskStepInBatch exampleEnv ?task ''running'' 2 ?subtasks ?s)))
               = [2]"
    unfolding tasks
    by (simp add: exampleTaskStore_def taskAt_def setStateStep_def exampleTask_def
        exampleTaskRow_def)
  show ?thesis
    using nofault cnt le ok metas steps by blast
qed

text \<open>
  Claim C6 as stated fails in its last part: the row of the task is at (paused, 1) while
  the task object says (running, 1). The call for (running, 2) inserts the subtask and
  returns without error, and the row is still at (paused, 1).
\<close>

theorem SwitchTaskStepInBatch_stale_task_counterexample:
  "\<not> taskAt (exampleTask ''running'' 1) (exampleTaskRow 1 ''paused'' 1)
   \<and> fst (SwitchTaskStepInBatch exampleEnv (exampleTask ''running'' 1) ''running'' 2
            [exampleSubtask 1 2 ''a''] (exampleTaskStore ''paused'' 1)) = Inr ()
   \<and> map s_meta (tidb_background_subtask
        (snd (SwitchTaskStepInBatch exampleEnv (exampleTask ''running'' 1) ''running'' 2
                [exampleSubtask 1 2 ''a''] (exampleTaskStore ''paused'' 1)))) = [''a'']
   \<and> tidb_global_task
        (snd (SwitchTaskStepInBatch exampleEnv (exampleTask ''running'' 1) ''running'' 2
                [exampleSubtask 1 2 ''a''] (exampleTaskStore ''paused'' 1)))
      = [exampleTaskRow 1 ''paused'' 1]"
proof -
  let ?s = "exampleTaskStore ''paused'' 1"
  let ?task = "exampleTask ''running'' 1"
  have nofault: "faults ?s = []"
    by (simp add: exampleTaskStore_def exampleStore_def)
  have stale: "\<not> taskAt ?task (exampleTaskRow 1 ''paused'' 1)"
    by (simp add: taskAt_def exampleTask_def exampleTaskRow_def)
  have cnt: "length (filter (\<lambda>r. s_task_key r = ID ?task \<and> s_step r = 2)
                       (tidb_background_subtask ?s)) = 0"
    by (simp add: exampleTaskStore_def exampleStore_def)
  have upd: "sqlUpdate (taskAt ?task) (setStateStep ?task ''running'' 2 (clock ?s)) (tidb_global_task ?s)
               = (0, [exampleTaskRow 1 ''paused'' 1])"
    using stale by (simp add: sqlUpdate_def exampleTaskStore_def)
  note run = SwitchTaskStepInBatch_nofault [OF nofault, of exampleEnv ?task "''running''" 2
      "[exampleSubtask 1 2 ''a'']", unfolded cnt upd]
  have ok: "fst (SwitchTaskStepInBatch exampleEnv ?task ''running'' 2 [exampleSubtask 1 2 ''a''] ?s)
              = Inr ()"
    by (simp add: run)
  have metas: "map s_meta (tidb_background_subtask
                 (snd (SwitchTaskStepInBatch exampleEnv ?task ''running'' 2
                         [exampleSubtask 1 2 ''a''] ?s))) = [''a'']"
    using run
    by (simp add: assignIDs_map pendingSubtaskRow_def exampleSubtask_def
        exampleTaskStore_def exampleStore_def)
  have tasks: "tidb_global_task
                 (snd (SwitchTaskStepInBatch exampleEnv ?task ''running'' 2
                         [exampleSubtask 1 2 ''a''] ?s)) = [exampleTaskRow 1 ''paused'' 1]"
    by (simp add: run)
  show ?thesis
    using stale ok metas tasks by blast
qed

section \<open>The combined update when the insert fails\<close>

text \<open>
  Claim C3 does not hold of the code. The row of task 1 is pending, the task object says
  running, one subtask is given, and the store answers the fourth call of the session (the
  pool, \<^verbatim>\<open>begin\<close>, the update, then the insert of the subtask) with an error.
  \<open>UpdateTaskAndAddSubTasks\<close> returns \<open>(True, Inr ())\<close>, that is, retryable and no
  error; the transaction is committed, the row of the task is running, and there is no
  subtask row.
\<close>

theorem UpdateTaskAndAddSubTasks_insert_error_dropped:
  "fst (UpdateTaskAndAddSubTasks exampleEnv (exampleTask ''running'' 1)
          [exampleSubtask 1 1 ''a''] ''pending''
          ((exampleTaskStore ''pending'' 1)\<lparr>faults := [False, False, False, True]\<rparr>))
     = (True, Inr ())
   \<and> map c_state (tidb_global_task
        (snd (UpdateTaskAndAddSubTasks exampleEnv (exampleTask ''running'' 1)
                [exampleSubtask 1 1 ''a''] ''pending''
                ((exampleTaskStore ''pending'' 1)\<lparr>faults := [False, False, False, True]\<rparr>))))
     = [''running'']
   \<and> tidb_background_subtask
        (snd (UpdateTaskAndAddSubTasks exampleEnv (exampleTask ''running'' 1)
                [exampleSubtask 1 1 ''a''] ''pending''
                ((exampleTaskStore ''pending'' 1)\<lparr>faults := [False, False, False, True]\<rparr>)))
     = []"
  by (simp add: UpdateTaskAndAddSubTasks_def WithNewTxn_def WithNewSession_def ExecSQL_def
      attempt_def updateTaskAndAddSubTasksTxn_def sqlUpdateTask_def sqlUpdate_def
      exampleTaskStore_def exampleStore_def exampleTask_def exampleTaskRow_def exampleEnv_def
      serializeErr_def)

section \<open>Moving a task to the history\<close>











text \<open>
  The error of the \<^verbatim>\<open>delete from mysql.tidb_global_task\<close> is not returned: the loop
  over the subtasks that follows assigns to the same variable. When the store answers that
  statement (the fifth call of the session) with an error and every other call without,
  the transfer returns without error and the row of the task is in both task tables.
\<close>

lemma TransferTasks2History_delete_error_overwritten:
  "fst (TransferTasks2History [exampleTask ''succeed'' 2]
          ((exampleTaskStore ''succeed'' 2)\<lparr>faults := [False, False, False, False, True]\<rparr>))
     = Inr ()
   \<and> map c_id (tidb_global_task
        (snd (TransferTasks2History [exampleTask ''succeed'' 2]
                ((exampleTaskStore ''succeed'' 2)\<lparr>faults := [False, False, False, False, True]\<rparr>))))
     = [1]
   \<and> map c_id (tidb_global_task_history
        (snd (TransferTasks2History [exampleTask ''succeed'' 2]
                ((exampleTaskStore ''succeed'' 2)\<lparr>faults := [False, False, False, False, True]\<rparr>))))
     = [1]"
  by (simp add: TransferTasks2History_def WithNewTxn_def WithNewSession_def ExecSQL_def
      attempt_def sqlUpdateMeta_def sqlUpdate_def sqlCopyTasks2History_def sqlDeleteTasks_def
      TransferSubtasks2HistoryWithSession_def sqlCopySubtasks2History_def sqlDeleteSubtasks_def
      exampleTaskStore_def exampleStore_def exampleTask_def exampleTaskRow_def)

end
